theory Spec2Isabelle
  imports Main
begin

section \<open>Function-name resolution (pkg/sql/parser/function\_name.go)\<close>

text \<open>
  A shallow embedding of the function-name resolver of the SQL parser: the normalisation
  of an unresolved name into a structured function name, the registry lookup with its
  fast path and its search-path fallback, and the mutable reference cell that caches the
  first successful resolution.
\<close>

subsection \<open>Data model\<close>

text \<open>
  An \<open>UnresolvedName\<close> is a sequence of name parts. The source distinguishes the parts
  by a type test for \<open>*ArraySubscript\<close>; the other parts are plain identifiers of the
  string type \<open>Name\<close>. The index expressions held by a subscript are never inspected by
  this code, so the marker carries no payload.
\<close>

datatype NamePart = Name string | ArraySubscript

type_synonym UnresolvedName = "NamePart list"

type_synonym NameParts = "NamePart list"

text \<open>
  \<open>functionName\<close>: the structured name, an intermediate step between an unresolved name
  and a function definition. The field \<open>functionName\<close> of the source is \<open>functionName'\<close>
  here, since the record already has that name.
\<close>

record functionName =
  prefixName :: string
  functionName' :: string
  selector :: NameParts

text \<open>The accessors \<open>function()\<close> and \<open>prefix()\<close> of the source.\<close>

definition function_fn :: "functionName \<Rightarrow> string" where
  "function_fn fn = functionName' fn"

definition prefix_fn :: "functionName \<Rightarrow> string" where
  "prefix_fn fn = prefixName fn"

text \<open>
  \<open>FunctionDefinition\<close>: a name and the overloads of a builtin. The type \<open>Builtin\<close> of an
  overload is declared elsewhere and is not inspected here: it is the type parameter
  \<open>'b\<close>. The registry holds pointers to definitions that are never mutated, so a
  pointer is modelled by the value it points to.
\<close>

record 'b FunctionDefinition =
  Name_fd :: string
  Definition_fd :: "'b list"

text \<open>
  \<open>funDefs\<close>, the registry of builtins: a global map of the source, filled by an
  initialiser that is not part of this file. Every operation that reads it takes it as
  its first argument.
\<close>

type_synonym 'b funDefs = "string \<rightharpoonup> 'b FunctionDefinition"

type_synonym SearchPath = "string list"

text \<open>
  The two errors this file creates, by their format strings:
  \<open>"invalid function name: %s"\<close> and \<open>"unknown function: %s()"\<close>, each applied to the
  whole unresolved name.
\<close>

datatype error = InvalidFunctionName UnresolvedName | UnknownFunction UnresolvedName

text \<open>
  The two panics: \<open>"unsupported function name: ..."\<close> of \<open>Resolve\<close> and
  \<open>"function %s() not defined"\<close> of \<open>wrapFunction\<close>.
\<close>

datatype panic = UnsupportedFunctionName | FunctionNotDefined string

text \<open>
  \<open>FunctionReference\<close> is an interface implemented by \<open>UnresolvedName\<close> and by
  \<open>*FunctionDefinition\<close>. \<open>OtherReference\<close> stands for any other dynamic value of the
  interface (the nil interface included), which the type switch of \<open>Resolve\<close> sends to
  its default branch.
\<close>

datatype 'b FunctionReference =
    UnresolvedNameRef UnresolvedName
  | FunctionDefinitionRef "'b FunctionDefinition"
  | OtherReference

record 'b ResolvableFunctionReference =
  FunctionReference :: "'b FunctionReference"

subsection \<open>Collaborators that are not in this file\<close>

text \<open>
  Two functions that \<open>normalizeFunctionName\<close> and \<open>ResolveFunction\<close> call are defined
  outside this file: \<open>strings.ToLower\<close> of the Go library, which lower-cases every
  Unicode letter, and \<open>normalizeTableNameAsValue\<close>, the table-name validation of the
  package. The embedding does not fix what they compute: the functions that call them
  take them as their first arguments, under the names the source calls them by, and the
  properties below hold for every such function unless they say otherwise.
\<close>

text \<open>
  Modelled from the spec: the result type \<open>TableName\<close> of the table-name validation is
  declared in another file of the package. Only the two fields that
  \<open>normalizeFunctionName\<close> reads are kept; \<open>DatabaseName\<close> is the optional qualifier, empty
  when the name has none. The field \<open>TableName\<close> of the source is \<open>TableName'\<close> here.
  A rejection by the validation is \<open>None\<close>: its error is overridden by the only caller
  here.
\<close>

record TableName =
  DatabaseName :: string
  TableName' :: string

subsection \<open>Normalisation\<close>

text \<open>
  The loop of \<open>normalizeFunctionName\<close> that finds the first array subscript: the index
  of the first \<open>ArraySubscript\<close> part, or the length of the name when there is none.
\<close>

fun firstArraySubscript :: "UnresolvedName \<Rightarrow> nat" where
  "firstArraySubscript [] = 0"
| "firstArraySubscript (ArraySubscript # ps) = 0"
| "firstArraySubscript (Name x # ps) = Suc (firstArraySubscript ps)"

definition normalizeFunctionName ::
  "(UnresolvedName \<Rightarrow> TableName option) \<Rightarrow> UnresolvedName \<Rightarrow> error + functionName" where
  "normalizeFunctionName normalizeTableNameAsValue n =
     (if length n = 0 then Inl (InvalidFunctionName n)
      else
        let i = firstArraySubscript n in
        if i = 0 then Inl (InvalidFunctionName n)
        else
          case normalizeTableNameAsValue (take i n) of
            None \<Rightarrow> Inl (InvalidFunctionName n)
          | Some tn \<Rightarrow>
              Inr \<lparr>prefixName = DatabaseName tn,
                   functionName' = TableName' tn,
                   selector = drop i n\<rparr>)"

subsection \<open>Resolution\<close>

text \<open>
  The loop of \<open>ResolveFunction\<close> over the search path: the definition registered under
  \<open>alt + "." + smallName\<close> for the first entry \<open>alt\<close> that has one.
\<close>

fun searchLoop :: "'b funDefs \<Rightarrow> string \<Rightarrow> SearchPath \<Rightarrow> 'b FunctionDefinition option" where
  "searchLoop funDefs smallName [] = None"
| "searchLoop funDefs smallName (alt # rest) =
     (case funDefs (alt @ ''.'' @ smallName) of
        Some d \<Rightarrow> Some d
      | None \<Rightarrow> searchLoop funDefs smallName rest)"

text \<open>
  \<open>ResolveFunction\<close>. The fast path of the source returns the entry under the function
  name as written when that entry exists and the prefix is empty; here that is the
  lookup guarded by the test on the prefix. The rest follows the source line by line:
  the lower-cased prefix and name, the full name, its lookup, the search-path loop for
  an unqualified name and the unknown-function error.
\<close>

definition ResolveFunction ::
  "(string \<Rightarrow> string) \<Rightarrow> (UnresolvedName \<Rightarrow> TableName option) \<Rightarrow>
     'b funDefs \<Rightarrow> UnresolvedName \<Rightarrow> SearchPath \<Rightarrow> error + 'b FunctionDefinition" where
  "ResolveFunction ToLower normalizeTableNameAsValue funDefs n searchPath =
     (case normalizeFunctionName normalizeTableNameAsValue n of
        Inl err \<Rightarrow> Inl err
      | Inr fn \<Rightarrow>
          (if length (selector fn) > 0 then Inl (InvalidFunctionName n)
           else
             (case (if prefix_fn fn = [] then funDefs (function_fn fn) else None) of
                Some d \<Rightarrow> Inr d
              | None \<Rightarrow>
                  (let prefix = ToLower (prefix_fn fn);
                       smallName = ToLower (function_fn fn);
                       fullName = (if prefix \<noteq> [] then prefix @ ''.'' @ smallName
                                   else smallName)
                   in
                     (case funDefs fullName of
                        Some d \<Rightarrow> Inr d
                      | None \<Rightarrow>
                          (case (if prefix = [] then searchLoop funDefs smallName searchPath
                                 else None) of
                             Some d \<Rightarrow> Inr d
                           | None \<Rightarrow> Inl (UnknownFunction n)))))))"

subsection \<open>The reference cell\<close>

text \<open>
  \<open>Resolve\<close> mutates the cell it is called on: the model returns the pair of what the
  source returns (an error or the definition) and the cell after the call, or the panic
  of the default branch.
\<close>

definition Resolve ::
  "(string \<Rightarrow> string) \<Rightarrow> (UnresolvedName \<Rightarrow> TableName option) \<Rightarrow>
     'b funDefs \<Rightarrow> 'b ResolvableFunctionReference \<Rightarrow> SearchPath \<Rightarrow>
     panic + ((error + 'b FunctionDefinition) \<times> 'b ResolvableFunctionReference)" where
  "Resolve ToLower normalizeTableNameAsValue funDefs fn searchPath =
     (case FunctionReference fn of
        FunctionDefinitionRef t \<Rightarrow> Inr (Inr t, fn)
      | UnresolvedNameRef t \<Rightarrow>
          (case ResolveFunction ToLower normalizeTableNameAsValue funDefs t searchPath of
             Inl err \<Rightarrow> Inr (Inl err, fn)
           | Inr fd \<Rightarrow> Inr (Inr fd, fn\<lparr>FunctionReference := FunctionDefinitionRef fd\<rparr>))
      | OtherReference \<Rightarrow> Inl UnsupportedFunctionName)"

definition wrapFunction :: "'b funDefs \<Rightarrow> string \<Rightarrow> panic + 'b ResolvableFunctionReference" where
  "wrapFunction funDefs n =
     (case funDefs n of
        None \<Rightarrow> Inl (FunctionNotDefined n)
      | Some fd \<Rightarrow> Inr \<lparr>FunctionReference = FunctionDefinitionRef fd\<rparr>)"

subsection \<open>Collaborators and a small registry for concrete runs\<close>

text \<open>
  \<open>ToLower_ascii\<close> is \<open>strings.ToLower\<close> on ASCII strings only: there the library maps
  the bytes \<open>A\<close> to \<open>Z\<close> to \<open>a\<close> to \<open>z\<close> and keeps every other byte. It stands for the
  library function in the runs below, all of them on ASCII names, and nowhere else.
\<close>

definition toLowerChar :: "char \<Rightarrow> char" where
  "toLowerChar c =
     (let k = (of_char c :: nat) in if 65 \<le> k \<and> k \<le> 90 then char_of (k + 32) else c)"

definition ToLower_ascii :: "string \<Rightarrow> string" where
  "ToLower_ascii s = map toLowerChar s"

text \<open>
  Modelled from the spec: \<open>normalizeTableNameAsValue\<close>, the table-name validation that
  \<open>normalizeFunctionName\<close> reuses, is defined in another file of the package. The spec
  describes its structural rule as "optional one-level qualifier + bare name": one plain
  identifier is a bare table name (the database name stays empty), two plain identifiers
  are a qualifier and a name, and every other shape is rejected.
\<close>

fun normalizeTableNameAsValue_spec :: "UnresolvedName \<Rightarrow> TableName option" where
  "normalizeTableNameAsValue_spec [Name t] = Some \<lparr>DatabaseName = [], TableName' = t\<rparr>"
| "normalizeTableNameAsValue_spec [Name d, Name t] = Some \<lparr>DatabaseName = d, TableName' = t\<rparr>"
| "normalizeTableNameAsValue_spec n = None"

text \<open>
  Three builtins, registered the way the initialiser registers them: \<open>lower\<close> under its
  bare name, \<open>now\<close> under two namespaces. The overloads are stood for by numbers.
\<close>

definition lowerDef :: "nat FunctionDefinition" where
  "lowerDef = \<lparr>Name_fd = ''lower'', Definition_fd = [0]\<rparr>"

definition nowDef :: "nat FunctionDefinition" where
  "nowDef = \<lparr>Name_fd = ''pg_catalog.now'', Definition_fd = [1]\<rparr>"

definition otherNowDef :: "nat FunctionDefinition" where
  "otherNowDef = \<lparr>Name_fd = ''other.now'', Definition_fd = [2]\<rparr>"

definition exampleDefs :: "nat funDefs" where
  "exampleDefs =
     [''lower'' \<mapsto> lowerDef, ''pg_catalog.now'' \<mapsto> nowDef, ''other.now'' \<mapsto> otherNowDef]"

definition emptyDefs :: "nat funDefs" where
  "emptyDefs = Map.empty"

section \<open>Properties\<close>

subsection \<open>Auxiliary facts\<close>

lemma ToLower_ascii_Nil_iff: "(ToLower_ascii s = []) = (s = [])"
  by (simp add: ToLower_ascii_def)

lemma ToLower_ascii_Nil: "ToLower_ascii [] = []"
  by (simp add: ToLower_ascii_def)

lemma ToLower_ascii_NOW: "ToLower_ascii ''NOW'' = ''now''"
  by code_simp

lemma ToLower_ascii_now: "ToLower_ascii ''now'' = ''now''"
  by code_simp

lemma ToLower_ascii_PG_CATALOG: "ToLower_ascii ''PG_CATALOG'' = ''pg_catalog''"
  by code_simp

lemma ToLower_ascii_bogus_fn: "ToLower_ascii ''bogus_fn'' = ''bogus_fn''"
  by code_simp

lemma ToLower_ascii_LOWER: "ToLower_ascii ''LOWER'' = ''lower''"
  by code_simp

lemma ToLower_ascii_PUBLIC: "ToLower_ascii ''PUBLIC'' = ''public''"
  by code_simp

lemma firstArraySubscript_le: "firstArraySubscript n \<le> length n"
  by (induction n rule: firstArraySubscript.induct) simp_all


lemma searchLoop_first:
  "\<forall>a\<in>set pre. funDefs (a @ ''.'' @ s) = None \<Longrightarrow> funDefs (alt @ ''.'' @ s) = Some d \<Longrightarrow>
     searchLoop funDefs s (pre @ alt # post) = Some d"
  by (induction pre) simp_all

lemma searchLoop_none:
  "\<forall>a\<in>set sp. funDefs (a @ ''.'' @ s) = None \<Longrightarrow> searchLoop funDefs s sp = None"
  by (induction sp) simp_all

lemma normalize_one:
  "normalizeFunctionName normalizeTableNameAsValue_spec [Name f]
     = Inr \<lparr>prefixName = [], functionName' = f, selector = []\<rparr>"
  by (simp add: normalizeFunctionName_def)

lemma normalize_two:
  "normalizeFunctionName normalizeTableNameAsValue_spec [Name p, Name f]
     = Inr \<lparr>prefixName = p, functionName' = f, selector = []\<rparr>"
  by (simp add: normalizeFunctionName_def)

lemma exampleDefs_now_unqualified:
  "ResolveFunction ToLower_ascii normalizeTableNameAsValue_spec exampleDefs
     [Name ''now''] [''pg_catalog''] = Inr nowDef"
  by (simp add: ResolveFunction_def normalize_one function_fn_def prefix_fn_def
      ToLower_ascii_now ToLower_ascii_Nil Let_def exampleDefs_def)

lemma exampleDefs_now_unknown:
  "ResolveFunction ToLower_ascii normalizeTableNameAsValue_spec exampleDefs
     [Name ''now''] [] = Inl (UnknownFunction [Name ''now''])"
  by (simp add: ResolveFunction_def normalize_one function_fn_def prefix_fn_def
      ToLower_ascii_now ToLower_ascii_Nil Let_def exampleDefs_def)

lemma exampleDefs_now_other:
  "ResolveFunction ToLower_ascii normalizeTableNameAsValue_spec exampleDefs
     [Name ''now''] [''other''] = Inr otherNowDef"
  by (simp add: ResolveFunction_def normalize_one function_fn_def prefix_fn_def
      ToLower_ascii_now ToLower_ascii_Nil Let_def exampleDefs_def)

lemma exampleDefs_lower:
  "ResolveFunction ToLower normalizeTableNameAsValue_spec exampleDefs [Name ''lower''] []
     = Inr lowerDef"
  by (simp add: ResolveFunction_def normalize_one function_fn_def prefix_fn_def exampleDefs_def)

subsection \<open>The reference cell caches the first successful resolution\<close>

text \<open>
  C1. Once a \<open>Resolve\<close> call on a cell has succeeded with a definition \<open>d\<close> (under some
  search path \<open>P1\<close>), the cell holds \<open>d\<close>, and a further \<open>Resolve\<close> call on it, with any
  search path \<open>P2\<close> (and even any registry and any collaborators), returns \<open>d\<close> again and
  leaves the cell as it is. The cell after the second call is the cell before it, so the
  same holds for every later call.
\<close>

theorem Resolve_cached:
  assumes "Resolve ToLower normalizeTableNameAsValue funDefs fn P1 = Inr (Inr d, fn')"
  shows "FunctionReference fn' = FunctionDefinitionRef d \<and>
         Resolve ToLower' normalizeTableNameAsValue' funDefs' fn' P2 = Inr (Inr d, fn')"
proof (cases "FunctionReference fn")
  case (UnresolvedNameRef t)
  with assms show ?thesis
    by (auto simp: Resolve_def split: sum.splits)
next
  case (FunctionDefinitionRef t)
  with assms show ?thesis
    by (auto simp: Resolve_def)
next
  case OtherReference
  with assms show ?thesis
    by (simp add: Resolve_def)
qed

text \<open>
  A run: \<open>now\<close> is resolved through the search path \<open>pg_catalog\<close>; the second call, with
  the search path \<open>other\<close>, still returns the first definition, although a fresh
  resolution under \<open>other\<close> finds another one.
\<close>

theorem Resolve_cached_witness:
  "Resolve ToLower_ascii normalizeTableNameAsValue_spec exampleDefs
     \<lparr>FunctionReference = UnresolvedNameRef [Name ''now'']\<rparr> [''pg_catalog'']
     = Inr (Inr nowDef, \<lparr>FunctionReference = FunctionDefinitionRef nowDef\<rparr>) \<and>
   Resolve ToLower_ascii normalizeTableNameAsValue_spec exampleDefs
     \<lparr>FunctionReference = FunctionDefinitionRef nowDef\<rparr> [''other'']
     = Inr (Inr nowDef, \<lparr>FunctionReference = FunctionDefinitionRef nowDef\<rparr>) \<and>
   ResolveFunction ToLower_ascii normalizeTableNameAsValue_spec exampleDefs
     [Name ''now''] [''other''] = Inr otherNowDef"
proof -
  have first:
    "Resolve ToLower_ascii normalizeTableNameAsValue_spec exampleDefs
       \<lparr>FunctionReference = UnresolvedNameRef [Name ''now'']\<rparr> [''pg_catalog'']
       = Inr (Inr nowDef, \<lparr>FunctionReference = FunctionDefinitionRef nowDef\<rparr>)"
    by (simp add: Resolve_def exampleDefs_now_unqualified)
  from Resolve_cached [OF first, of ToLower_ascii normalizeTableNameAsValue_spec exampleDefs
      "[''other'']"] first exampleDefs_now_other
  show ?thesis by simp
qed

subsection \<open>A failed resolution leaves the cell as it was\<close>

text \<open>
  C8. When the cell holds an unresolved name and \<open>ResolveFunction\<close> fails on it, \<open>Resolve\<close>
  returns that very error and the cell is unchanged: it still holds the same unresolved
  name, so a later call, with another search path, may succeed.
\<close>

theorem Resolve_failure:
  assumes "FunctionReference fn = UnresolvedNameRef n"
    and "ResolveFunction ToLower normalizeTableNameAsValue funDefs n searchPath = Inl err"
  shows "Resolve ToLower normalizeTableNameAsValue funDefs fn searchPath = Inr (Inl err, fn)"
  using assms by (simp add: Resolve_def)

text \<open>
  A run: \<open>now\<close> is unknown under the empty search path, and the same cell resolves under
  the search path \<open>pg_catalog\<close>.
\<close>

theorem Resolve_failure_witness:
  "Resolve ToLower_ascii normalizeTableNameAsValue_spec exampleDefs
     \<lparr>FunctionReference = UnresolvedNameRef [Name ''now'']\<rparr> []
     = Inr (Inl (UnknownFunction [Name ''now'']),
            \<lparr>FunctionReference = UnresolvedNameRef [Name ''now'']\<rparr>) \<and>
   Resolve ToLower_ascii normalizeTableNameAsValue_spec exampleDefs
     \<lparr>FunctionReference = UnresolvedNameRef [Name ''now'']\<rparr> [''pg_catalog'']
     = Inr (Inr nowDef, \<lparr>FunctionReference = FunctionDefinitionRef nowDef\<rparr>)"
proof -
  have cell: "FunctionReference \<lparr>FunctionReference = UnresolvedNameRef [Name ''now'']\<rparr>
      = (UnresolvedNameRef [Name ''now''] :: nat FunctionReference)"
    by simp
  have retry:
    "Resolve ToLower_ascii normalizeTableNameAsValue_spec exampleDefs
       \<lparr>FunctionReference = UnresolvedNameRef [Name ''now'']\<rparr> [''pg_catalog'']
       = Inr (Inr nowDef, \<lparr>FunctionReference = FunctionDefinitionRef nowDef\<rparr>)"
    by (simp add: Resolve_def exampleDefs_now_unqualified)
  from Resolve_failure [OF cell exampleDefs_now_unknown] retry show ?thesis by simp
qed

subsection \<open>Pre-resolved cells\<close>

text \<open>
  \<open>wrapFunction\<close> takes the name of a builtin, not a definition, and reads the registry:
  the same name gives a resolved cell under one registry and a panic under another.
\<close>

theorem wrapFunction_registry_counterexample:
  "wrapFunction exampleDefs ''lower''
     = Inr \<lparr>FunctionReference = FunctionDefinitionRef lowerDef\<rparr> \<and>
   wrapFunction emptyDefs ''lower'' = Inl (FunctionNotDefined ''lower'')"
  by (simp add: wrapFunction_def exampleDefs_def emptyDefs_def)

text \<open>
  C4, as the code has it. \<open>wrapFunction\<close> looks its argument up in the registry, exactly
  as written (no normalisation, no search path); when the name is a key it builds a cell
  that is already resolved and holds the registry's definition. A cell so built resolves
  to that definition whatever the registry and the search path are, and stays as it is.
\<close>

theorem wrapFunction_resolved:
  assumes "funDefs n = Some d"
  shows "wrapFunction funDefs n = Inr \<lparr>FunctionReference = FunctionDefinitionRef d\<rparr> \<and>
         Resolve ToLower normalizeTableNameAsValue funDefs'
             \<lparr>FunctionReference = FunctionDefinitionRef d\<rparr> searchPath
           = Inr (Inr d, \<lparr>FunctionReference = FunctionDefinitionRef d\<rparr>)"
  using assms by (simp add: wrapFunction_def Resolve_def)

theorem wrapFunction_resolved_witness:
  "wrapFunction exampleDefs ''lower''
     = Inr \<lparr>FunctionReference = FunctionDefinitionRef lowerDef\<rparr> \<and>
   Resolve ToLower_ascii normalizeTableNameAsValue_spec emptyDefs
       \<lparr>FunctionReference = FunctionDefinitionRef lowerDef\<rparr> [''other'']
     = Inr (Inr lowerDef, \<lparr>FunctionReference = FunctionDefinitionRef lowerDef\<rparr>)"
proof -
  have key: "exampleDefs ''lower'' = Some lowerDef"
    by (simp add: exampleDefs_def)
  from wrapFunction_resolved [where funDefs = exampleDefs and n = "''lower''" and d = lowerDef
      and funDefs' = emptyDefs and searchPath = "[''other'']" and ToLower = ToLower_ascii
      and normalizeTableNameAsValue = normalizeTableNameAsValue_spec, OF key]
  show ?thesis .
qed

text \<open>
  C10. \<open>wrapFunction n\<close> panics, with the message that names \<open>n\<close>, when \<open>n\<close> is not a key
  of the registry; when it is a key, \<open>wrapFunction\<close> does not panic and returns the cell
  that holds exactly the registry's definition for \<open>n\<close>.
\<close>

theorem wrapFunction_panics:
  "(funDefs n = None \<longrightarrow> wrapFunction funDefs n = Inl (FunctionNotDefined n)) \<and>
   (funDefs n = Some d \<longrightarrow>
      wrapFunction funDefs n = Inr \<lparr>FunctionReference = FunctionDefinitionRef d\<rparr>)"
  by (simp add: wrapFunction_def)

theorem wrapFunction_panics_witness:
  "wrapFunction exampleDefs ''bogus_fn'' = Inl (FunctionNotDefined ''bogus_fn'') \<and>
   wrapFunction exampleDefs ''pg_catalog.now''
     = Inr \<lparr>FunctionReference = FunctionDefinitionRef nowDef\<rparr>"
proof -
  have miss: "exampleDefs ''bogus_fn'' = None"
    and hit: "exampleDefs ''pg_catalog.now'' = Some nowDef"
    by (simp_all add: exampleDefs_def)
  from wrapFunction_panics [of exampleDefs "''bogus_fn''" nowDef] miss
    wrapFunction_panics [of exampleDefs "''pg_catalog.now''" nowDef] hit
  show ?thesis by simp
qed

subsection \<open>Normalisation\<close>

text \<open>
  C9. \<open>normalizeFunctionName\<close> fails with the invalid-function-name error, naming its
  input, on the empty name and on every name whose first part is an array subscript,
  whatever the table-name validation is: it is not reached.
\<close>

theorem normalizeFunctionName_invalid:
  "normalizeFunctionName normalizeTableNameAsValue [] = Inl (InvalidFunctionName []) \<and>
   normalizeFunctionName normalizeTableNameAsValue (ArraySubscript # ps)
     = Inl (InvalidFunctionName (ArraySubscript # ps))"
  by (simp add: normalizeFunctionName_def)

theorem normalizeFunctionName_invalid_witness:
  "normalizeFunctionName normalizeTableNameAsValue_spec [ArraySubscript, Name ''lower'']
     = Inl (InvalidFunctionName [ArraySubscript, Name ''lower''])"
  using normalizeFunctionName_invalid [of normalizeTableNameAsValue_spec "[Name ''lower'']"]
  by simp





subsection \<open>Resolution: selectors\<close>

text \<open>
  The error for a name with a selector is built from the same format string,
  \<open>"invalid function name: %s"\<close>, as the errors of normalisation for an empty name and
  for a leading subscript: the code has no error of its own for selectors.
\<close>

theorem ResolveFunction_selector_counterexample:
  "normalizeFunctionName normalizeTableNameAsValue_spec [Name ''lower'', ArraySubscript]
     = Inr \<lparr>prefixName = [], functionName' = ''lower'', selector = [ArraySubscript]\<rparr> \<and>
   ResolveFunction ToLower_ascii normalizeTableNameAsValue_spec exampleDefs
       [Name ''lower'', ArraySubscript] []
     = Inl (InvalidFunctionName [Name ''lower'', ArraySubscript]) \<and>
   ResolveFunction ToLower_ascii normalizeTableNameAsValue_spec exampleDefs [ArraySubscript] []
     = Inl (InvalidFunctionName [ArraySubscript]) \<and>
   ResolveFunction ToLower_ascii normalizeTableNameAsValue_spec exampleDefs [] []
     = Inl (InvalidFunctionName [])"
  by (simp add: ResolveFunction_def normalizeFunctionName_def)

text \<open>
  C2, as the code has it. For every name that normalises with a non-empty selector,
  \<open>ResolveFunction\<close> fails with the invalid-function-name error naming the whole input,
  the error that malformed names get too; it is not the unknown-function error, and it
  does not depend on the registry or the search path, so it is returned also when the
  prefix and name alone would have resolved.
\<close>

theorem ResolveFunction_selector:
  assumes "normalizeFunctionName normalizeTableNameAsValue n = Inr fn"
    and "selector fn \<noteq> []"
  shows "ResolveFunction ToLower normalizeTableNameAsValue funDefs n searchPath
           = Inl (InvalidFunctionName n) \<and>
         ResolveFunction ToLower normalizeTableNameAsValue funDefs n searchPath
           \<noteq> Inl (UnknownFunction m)"
  using assms by (simp add: ResolveFunction_def)

text \<open>A run: \<open>lower\<close> resolves, \<open>lower\<close> followed by a subscript does not.\<close>

theorem ResolveFunction_selector_witness:
  "ResolveFunction ToLower_ascii normalizeTableNameAsValue_spec exampleDefs [Name ''lower''] []
     = Inr lowerDef \<and>
   ResolveFunction ToLower_ascii normalizeTableNameAsValue_spec exampleDefs
       [Name ''lower'', ArraySubscript] []
     = Inl (InvalidFunctionName [Name ''lower'', ArraySubscript]) \<and>
   ResolveFunction ToLower_ascii normalizeTableNameAsValue_spec exampleDefs
       [Name ''lower'', ArraySubscript] []
     \<noteq> Inl (UnknownFunction [Name ''lower'', ArraySubscript])"
proof -
  have norm: "normalizeFunctionName normalizeTableNameAsValue_spec [Name ''lower'', ArraySubscript]
     = Inr \<lparr>prefixName = [], functionName' = ''lower'', selector = [ArraySubscript]\<rparr>"
    by (simp add: normalizeFunctionName_def)
  have sel:
    "selector \<lparr>prefixName = [], functionName' = ''lower'', selector = [ArraySubscript]\<rparr> \<noteq> []"
    by simp
  from ResolveFunction_selector [OF norm sel, of ToLower_ascii exampleDefs "[]"
      "[Name ''lower'', ArraySubscript]"]
    exampleDefs_lower [of ToLower_ascii]
  show ?thesis by simp
qed

subsection \<open>Resolution: the fast path\<close>

text \<open>
  C6. For every name that normalises with an empty selector and an empty prefix, and
  whose function name, exactly as written, is a key of the registry, \<open>ResolveFunction\<close>
  returns the entry under that key, whatever the search path is; no lower-casing is
  applied to the key. In particular \<open>lower\<close> resolves under the empty search path in
  every registry that has the key \<open>lower\<close>.
\<close>

theorem ResolveFunction_fast_path:
  "(normalizeFunctionName normalizeTableNameAsValue n = Inr fn \<and> selector fn = [] \<and>
      prefix_fn fn = [] \<and> funDefs (function_fn fn) = Some d
      \<longrightarrow> ResolveFunction ToLower normalizeTableNameAsValue funDefs n searchPath = Inr d) \<and>
   (funDefs ''lower'' = Some d \<longrightarrow>
      ResolveFunction ToLower normalizeTableNameAsValue_spec funDefs [Name ''lower''] []
        = Inr d)"
  by (simp add: ResolveFunction_def normalize_one function_fn_def prefix_fn_def)

theorem ResolveFunction_fast_path_witness:
  "ResolveFunction ToLower_ascii normalizeTableNameAsValue_spec exampleDefs [Name ''lower''] []
     = Inr lowerDef \<and>
   ResolveFunction ToLower_ascii normalizeTableNameAsValue_spec exampleDefs
       [Name ''lower''] [''other'', ''pg_catalog'']
     = Inr lowerDef"
proof -
  have key: "exampleDefs ''lower'' = Some lowerDef"
    by (simp add: exampleDefs_def)
  have a: "ResolveFunction ToLower_ascii normalizeTableNameAsValue_spec exampleDefs
      [Name ''lower''] [] = Inr lowerDef"
    using ResolveFunction_fast_path [where funDefs = exampleDefs and d = lowerDef
        and ToLower = ToLower_ascii] key
    by simp
  have b: "ResolveFunction ToLower_ascii normalizeTableNameAsValue_spec exampleDefs
      [Name ''lower''] [''other'', ''pg_catalog''] = Inr lowerDef"
    using ResolveFunction_fast_path [where funDefs = exampleDefs and d = lowerDef
        and ToLower = ToLower_ascii
        and normalizeTableNameAsValue = normalizeTableNameAsValue_spec
        and n = "[Name ''lower'']" and searchPath = "[''other'', ''pg_catalog'']"
        and fn = "\<lparr>prefixName = [], functionName' = ''lower'', selector = []\<rparr>"] key
    by (simp add: normalize_one function_fn_def prefix_fn_def)
  from a b show ?thesis by simp
qed

subsection \<open>Resolution: the lower-cased lookup\<close>

text \<open>
  C7. \<open>strings.ToLower\<close> returns the empty string for the empty string and for no other,
  which is all that is assumed of it. When the fast path misses (the prefix is not empty,
  or the function name as written is not a key), \<open>ResolveFunction\<close> looks up the
  lower-cased prefix, a dot and the lower-cased function name when the prefix is not
  empty, and the lower-cased function name alone otherwise; a hit on that key is
  returned, whatever the search path is. In particular, with \<open>PG_CATALOG\<close> and \<open>NOW\<close>
  lower-cased to \<open>pg_catalog\<close> and \<open>now\<close>, \<open>PG_CATALOG.NOW\<close> resolves, under the empty
  search path, to the entry with the key \<open>pg_catalog.now\<close>.
\<close>

theorem ResolveFunction_folded:
  assumes "\<And>s. (ToLower s = []) = (s = [])"
  shows
    "(normalizeFunctionName normalizeTableNameAsValue n = Inr fn \<and> selector fn = [] \<and>
        (prefix_fn fn \<noteq> [] \<or> funDefs (function_fn fn) = None) \<and>
        funDefs (if prefix_fn fn \<noteq> []
                 then ToLower (prefix_fn fn) @ ''.'' @ ToLower (function_fn fn)
                 else ToLower (function_fn fn)) = Some d
        \<longrightarrow> ResolveFunction ToLower normalizeTableNameAsValue funDefs n searchPath = Inr d) \<and>
     (ToLower ''PG_CATALOG'' = ''pg_catalog'' \<and> ToLower ''NOW'' = ''now'' \<and>
        funDefs ''pg_catalog.now'' = Some d
        \<longrightarrow> ResolveFunction ToLower normalizeTableNameAsValue_spec funDefs
              [Name ''PG_CATALOG'', Name ''NOW''] [] = Inr d)"
  using assms
  by (auto simp: ResolveFunction_def normalize_two function_fn_def prefix_fn_def Let_def)

text \<open>
  Runs: \<open>PG_CATALOG.NOW\<close> under the empty search path, and the unqualified \<open>LOWER\<close>,
  which misses the fast path and is found under its lower-cased name.
\<close>

theorem ResolveFunction_folded_witness:
  "ResolveFunction ToLower_ascii normalizeTableNameAsValue_spec exampleDefs
       [Name ''PG_CATALOG'', Name ''NOW''] [] = Inr nowDef \<and>
   ResolveFunction ToLower_ascii normalizeTableNameAsValue_spec exampleDefs
       [Name ''LOWER''] [''other''] = Inr lowerDef"
proof -
  have key: "exampleDefs ''pg_catalog.now'' = Some nowDef"
    by (simp add: exampleDefs_def)
  have a: "ResolveFunction ToLower_ascii normalizeTableNameAsValue_spec exampleDefs
      [Name ''PG_CATALOG'', Name ''NOW''] [] = Inr nowDef"
    using ResolveFunction_folded [where ToLower = ToLower_ascii and funDefs = exampleDefs
        and d = nowDef, OF ToLower_ascii_Nil_iff] key
    by (simp add: ToLower_ascii_PG_CATALOG ToLower_ascii_NOW)
  have b: "ResolveFunction ToLower_ascii normalizeTableNameAsValue_spec exampleDefs
      [Name ''LOWER''] [''other''] = Inr lowerDef"
    using ResolveFunction_folded [where ToLower = ToLower_ascii and funDefs = exampleDefs
        and d = lowerDef and normalizeTableNameAsValue = normalizeTableNameAsValue_spec
        and n = "[Name ''LOWER'']" and searchPath = "[''other'']"
        and fn = "\<lparr>prefixName = [], functionName' = ''LOWER'', selector = []\<rparr>",
        OF ToLower_ascii_Nil_iff]
    by (simp add: normalize_one function_fn_def prefix_fn_def ToLower_ascii_LOWER
        exampleDefs_def)
  from a b show ?thesis by simp
qed

subsection \<open>Resolution: the search path\<close>

text \<open>
  C5. \<open>strings.ToLower\<close> returns the empty string for the empty string and for no other,
  which is all that is assumed of it. Take a name that normalises with an empty
  selector. If its prefix is empty and neither the function name as written nor its
  lower-cased form is a key, the search path is tried in list order with the keys
  \<open>entry + "." + lower-cased name\<close>: when the entries before \<open>alt\<close> all miss and \<open>alt\<close>
  hits, the definition under \<open>alt\<close>'s key is returned, whatever follows \<open>alt\<close>; when
  every entry misses, the result is the unknown-function error naming the input. If the
  prefix is not empty, the result is decided by the one key
  \<open>lower-cased prefix + "." + lower-cased name\<close> alone, a hit or the unknown-function
  error, and the search path plays no part.
\<close>

theorem ResolveFunction_search_path:
  assumes "\<And>s. (ToLower s = []) = (s = [])"
    and "normalizeFunctionName normalizeTableNameAsValue n = Inr fn"
    and "selector fn = []"
  shows
    "(prefix_fn fn = [] \<and> funDefs (function_fn fn) = None \<and>
      funDefs (ToLower (function_fn fn)) = None \<and>
      searchPath = pre @ alt # post \<and>
      (\<forall>a\<in>set pre. funDefs (a @ ''.'' @ ToLower (function_fn fn)) = None) \<and>
      funDefs (alt @ ''.'' @ ToLower (function_fn fn)) = Some d
        \<longrightarrow> ResolveFunction ToLower normalizeTableNameAsValue funDefs n searchPath = Inr d) \<and>
     (prefix_fn fn = [] \<and> funDefs (function_fn fn) = None \<and>
      funDefs (ToLower (function_fn fn)) = None \<and>
      (\<forall>a\<in>set searchPath. funDefs (a @ ''.'' @ ToLower (function_fn fn)) = None)
        \<longrightarrow> ResolveFunction ToLower normalizeTableNameAsValue funDefs n searchPath
              = Inl (UnknownFunction n)) \<and>
     (prefix_fn fn \<noteq> []
        \<longrightarrow> ResolveFunction ToLower normalizeTableNameAsValue funDefs n searchPath =
            (case funDefs (ToLower (prefix_fn fn) @ ''.'' @ ToLower (function_fn fn)) of
               Some d' \<Rightarrow> Inr d'
             | None \<Rightarrow> Inl (UnknownFunction n)))"
proof (intro conjI impI)
  assume h: "prefix_fn fn = [] \<and> funDefs (function_fn fn) = None \<and>
      funDefs (ToLower (function_fn fn)) = None \<and>
      searchPath = pre @ alt # post \<and>
      (\<forall>a\<in>set pre. funDefs (a @ ''.'' @ ToLower (function_fn fn)) = None) \<and>
      funDefs (alt @ ''.'' @ ToLower (function_fn fn)) = Some d"
  then have "searchLoop funDefs (ToLower (function_fn fn)) searchPath = Some d"
    by (simp add: searchLoop_first)
  with h assms
  show "ResolveFunction ToLower normalizeTableNameAsValue funDefs n searchPath = Inr d"
    by (simp add: ResolveFunction_def Let_def)
next
  assume h: "prefix_fn fn = [] \<and> funDefs (function_fn fn) = None \<and>
      funDefs (ToLower (function_fn fn)) = None \<and>
      (\<forall>a\<in>set searchPath. funDefs (a @ ''.'' @ ToLower (function_fn fn)) = None)"
  then have "searchLoop funDefs (ToLower (function_fn fn)) searchPath = None"
    by (simp add: searchLoop_none)
  with h assms
  show "ResolveFunction ToLower normalizeTableNameAsValue funDefs n searchPath
      = Inl (UnknownFunction n)"
    by (simp add: ResolveFunction_def Let_def)
next
  assume "prefix_fn fn \<noteq> []"
  with assms
  show "ResolveFunction ToLower normalizeTableNameAsValue funDefs n searchPath =
            (case funDefs (ToLower (prefix_fn fn) @ ''.'' @ ToLower (function_fn fn)) of
               Some d' \<Rightarrow> Inr d'
             | None \<Rightarrow> Inl (UnknownFunction n))"
    by (simp add: ResolveFunction_def Let_def split: option.splits)
qed

text \<open>
  Runs: \<open>NOW\<close> is found under the second entry of the search path although the third
  has a \<open>now\<close> too; \<open>bogus_fn\<close> is found under no entry; the qualified \<open>PUBLIC.NOW\<close>
  is unknown, although the search path holds a namespace that has a \<open>now\<close>.
\<close>

theorem ResolveFunction_search_path_witness:
  "ResolveFunction ToLower_ascii normalizeTableNameAsValue_spec exampleDefs
       [Name ''NOW''] [''public'', ''pg_catalog'', ''other''] = Inr nowDef \<and>
   ResolveFunction ToLower_ascii normalizeTableNameAsValue_spec exampleDefs
       [Name ''bogus_fn''] [''public'', ''pg_catalog'']
     = Inl (UnknownFunction [Name ''bogus_fn'']) \<and>
   ResolveFunction ToLower_ascii normalizeTableNameAsValue_spec exampleDefs
       [Name ''PUBLIC'', Name ''NOW''] [''pg_catalog'']
     = Inl (UnknownFunction [Name ''PUBLIC'', Name ''NOW''])"
proof -
  have sel1: "selector \<lparr>prefixName = [], functionName' = ''NOW'', selector = []\<rparr> = []"
    and sel2: "selector \<lparr>prefixName = [], functionName' = ''bogus_fn'', selector = []\<rparr> = []"
    and sel3:
      "selector \<lparr>prefixName = ''PUBLIC'', functionName' = ''NOW'', selector = []\<rparr> = []"
    by simp_all
  have a: "ResolveFunction ToLower_ascii normalizeTableNameAsValue_spec exampleDefs
      [Name ''NOW''] [''public'', ''pg_catalog'', ''other''] = Inr nowDef"
    using ResolveFunction_search_path [OF ToLower_ascii_Nil_iff normalize_one sel1,
        of exampleDefs "[''public'', ''pg_catalog'', ''other'']" "[''public'']"
          "''pg_catalog''" "[''other'']" nowDef]
    by (simp add: function_fn_def prefix_fn_def ToLower_ascii_NOW exampleDefs_def)
  have b: "ResolveFunction ToLower_ascii normalizeTableNameAsValue_spec exampleDefs
      [Name ''bogus_fn''] [''public'', ''pg_catalog'']
     = Inl (UnknownFunction [Name ''bogus_fn''])"
    using ResolveFunction_search_path [OF ToLower_ascii_Nil_iff normalize_one sel2,
        of exampleDefs "[''public'', ''pg_catalog'']"]
    by (simp add: function_fn_def prefix_fn_def ToLower_ascii_bogus_fn exampleDefs_def)
  have c: "ResolveFunction ToLower_ascii normalizeTableNameAsValue_spec exampleDefs
      [Name ''PUBLIC'', Name ''NOW''] [''pg_catalog'']
     = Inl (UnknownFunction [Name ''PUBLIC'', Name ''NOW''])"
    using ResolveFunction_search_path [OF ToLower_ascii_Nil_iff normalize_two sel3,
        of exampleDefs "[''pg_catalog'']"]
    by (simp add: function_fn_def prefix_fn_def ToLower_ascii_NOW ToLower_ascii_PUBLIC
        exampleDefs_def)
  from a b c show ?thesis by simp
qed

end
